theory Spec2Isabelle
  imports Main "HOL-Library.Sublist" "HOL-Library.AList"
begin

section \<open>The EDB console (edb.py) as a shallow embedding\<close>

text \<open>
  The console is a thin adapter over the debugger engine of package pyedb. The
  engine is not part of the console's source: it is modelled as an external party whose
  replies are scripted (one reply per call, consumed in order) and whose invocations
  are recorded in a trace. Python floats are kept abstract (type variable \<open>'f\<close>), as
  is the telemetry sample of an energy profile (\<open>'p\<close>); the conversions of the Python
  runtime (\<open>float\<close>, \<open>int\<close>, the \<open>%\<close> directives, \<open>repr\<close>) are the fields of a record
  passed to every function that formats or parses.
\<close>

subsection \<open>Exceptions and outcomes\<close>

datatype exn =
    KeyboardInterrupt
  | SystemExit
  | TypeError
  | ValueError
  | IndexError
  | KeyError
  | AttributeError
  | IOError
  | EOFError
  | Exception string
  | EngineError string


text \<open>A call returns a value, raises, or never returns (the engine blocks for ever).\<close>

datatype 'a outcome = Returns 'a | Raises exn | Blocks

subsection \<open>The Python runtime\<close>

record ('f, 'p) pyrt =
  float_of :: "string \<Rightarrow> 'f option"      \<comment> \<open>\<open>float(s)\<close>; \<open>None\<close>: ValueError\<close>
  int_of :: "string \<Rightarrow> int option"       \<comment> \<open>\<open>int(s)\<close>; \<open>None\<close>: ValueError\<close>
  fmt_f :: "nat \<Rightarrow> 'f \<Rightarrow> string"         \<comment> \<open>\<open>"%.Nf" % x\<close>\<close>
  fmt_u :: "int \<Rightarrow> string"                \<comment> \<open>\<open>"%u" % n\<close>\<close>
  repr_int :: "int \<Rightarrow> string"             \<comment> \<open>\<open>"%r" % n\<close>\<close>
  repr_str :: "string \<Rightarrow> string"          \<comment> \<open>\<open>"%r" % s\<close>\<close>
  repr_profile :: "'p \<Rightarrow> string"
  fsub :: "'f \<Rightarrow> 'f \<Rightarrow> 'f"                \<comment> \<open>float subtraction\<close>
  repr_type :: "exn \<Rightarrow> string"            \<comment> \<open>\<open>str(type(e))\<close>\<close>
  format_exc :: "exn \<Rightarrow> string"           \<comment> \<open>\<open>traceback.format_exc()\<close>\<close>

text \<open>A float directive applied to \<open>None\<close> raises TypeError.\<close>

definition fmt_float :: "('f, 'p) pyrt \<Rightarrow> nat \<Rightarrow> 'f option \<Rightarrow> string outcome" where
  "fmt_float rt n v = (case v of None \<Rightarrow> Raises TypeError | Some x \<Rightarrow> Returns (fmt_f rt n x))"

subsection \<open>Strings\<close>

definition char_upper :: "char \<Rightarrow> char" where
  "char_upper c =
     (let n = (of_char c :: nat) in if 97 \<le> n \<and> n \<le> 122 then char_of (n - 32) else c)"

definition upper :: "string \<Rightarrow> string" where
  "upper s = map char_upper s"

definition startswith :: "string \<Rightarrow> string \<Rightarrow> bool" where
  \<comment> \<open>\<open>s.startswith(p)\<close>\<close>
  "startswith s p = prefix p s"






subsection \<open>Events and engine\<close>

record 'f interrupt_context =
  ctx_type :: string
  ctx_id :: int
  saved_vcap :: "'f option"

record 'f watchpoint_event =
  wp_id :: int
  wp_timestamp :: 'f
  wp_vcap :: "'f option"

datatype ('f, 'p) event =
    InterruptContext "'f interrupt_context"
  | WatchpointEvent "'f watchpoint_event"
  | StdIOData 'f string
  | EnergyProfile 'f 'p

text \<open>What an engine call may hand back: Python is dynamically typed.\<close>

datatype ('f, 'p) pyval = PNone | PFloat 'f | PEvent "('f, 'p) event" | PObject

datatype sink = Stdout | File string

datatype 'f call =
    Attach string "string option"
  | Charge 'f
  | ChargeCmp 'f
  | Discharge 'f
  | DischargeCmp 'f
  | Interrupt
  | ExitDebugMode
  | Wait
  | Stream "string list" "'f option" sink bool bool
  | ToggleBreakpoint "string option" int bool "'f option"
  | ToggleWatchpoint int bool bool
  | EnableTargetUart bool
  | EnablePeriodicPayload bool

text \<open>One scripted reply: what the engine writes to the sink it was given (if any)
  before the call ends, and how the call ends.\<close>

record ('f, 'p) reply =
  wrote :: string
  result :: "('f, 'p) pyval outcome"

datatype mon = NoMonitor | EDB

text \<open>What one call of \<open>input()\<close> does: it returns a line or raises. At the end of the
  input (no entry left) it raises EOFError.\<close>

datatype input = Line string | InputRaises exn

record ('f, 'p) world =
  active_mode :: bool
  stdout :: string
  console_file :: "string option"
  files :: "(string \<times> string) list"
  unwritable :: "string list"
  clock :: 'f
  calls :: "'f call list"
  script :: "('f, 'p) reply list"
  monitor :: mon
  stdin :: "input list"

subsection \<open>Output\<close>

definition print_end :: "string \<Rightarrow> ('f, 'p) world \<Rightarrow> ('f, 'p) world" where
  \<comment> \<open>\<open>print(s, end='')\<close>\<close>
  "print_end s w = w\<lparr>stdout := stdout w @ s\<rparr>"

definition print :: "string \<Rightarrow> ('f, 'p) world \<Rightarrow> ('f, 'p) world" where
  "print s w = w\<lparr>stdout := stdout w @ s @ [CHR 0x0A]\<rparr>"

definition file_content :: "('f, 'p) world \<Rightarrow> string \<Rightarrow> string" where
  "file_content w p = (case map_of (files w) p of None \<Rightarrow> [] | Some s \<Rightarrow> s)"

definition fwrite :: "sink \<Rightarrow> string \<Rightarrow> ('f, 'p) world \<Rightarrow> ('f, 'p) world" where
  \<comment> \<open>\<open>f.write(s)\<close>\<close>
  "fwrite f s w =
     (case f of
        Stdout \<Rightarrow> w\<lparr>stdout := stdout w @ s\<rparr>
      | File p \<Rightarrow> w\<lparr>files := AList.update p (file_content w p @ s) (files w)\<rparr>)"

definition open_w :: "string \<Rightarrow> ('f, 'p) world \<Rightarrow> sink outcome \<times> ('f, 'p) world" where
  \<comment> \<open>\<open>open(path, "w")\<close>: the file is created or truncated\<close>
  "open_w p w =
     (if p \<in> set (unwritable w) then (Raises IOError, w)
      else (Returns (File p), w\<lparr>files := AList.update p [] (files w)\<rparr>))"

definition CONSOLE_FILE :: "('f, 'p) world \<Rightarrow> sink" where
  "CONSOLE_FILE w = (case console_file w of None \<Rightarrow> Stdout | Some p \<Rightarrow> File p)"

subsection \<open>Calling the engine\<close>

fun call_sink :: "'f call \<Rightarrow> sink option" where
  "call_sink (Stream _ _ fp _ _) = Some fp"
| "call_sink _ = None"

definition mon_call ::
  "mon \<Rightarrow> 'f call \<Rightarrow> ('f, 'p) world \<Rightarrow> ('f, 'p) pyval outcome \<times> ('f, 'p) world" where
  "mon_call m c w =
     (case m of
        NoMonitor \<Rightarrow> (Raises AttributeError, w)
      | EDB \<Rightarrow>
          (case script w of
             [] \<Rightarrow> (Blocks, w\<lparr>calls := calls w @ [c]\<rparr>)
           | r # rs \<Rightarrow>
               (let w1 = w\<lparr>calls := calls w @ [c], script := rs\<rparr> in
                (result r,
                 case call_sink c of None \<Rightarrow> w1 | Some fp \<Rightarrow> fwrite fp (wrote r) w1))))"

subsection \<open>Helpers of the console\<close>

text \<open>\<open>match_keyword(part, words)\<close>: the loop runs over the words in order, with the
  match found so far.\<close>

fun match_loop :: "string \<Rightarrow> string list \<Rightarrow> string option \<Rightarrow> string option outcome" where
  "match_loop part [] match = Returns match"
| "match_loop part (word # words) match =
     (if startswith word part then
        (if match \<noteq> None then Raises (Exception (''Ambiguous keyword: '' @ part))
         else match_loop part words (Some word))
      else match_loop part words match)"

definition match_keyword :: "string \<Rightarrow> string list \<Rightarrow> string option outcome" where
  "match_keyword part words = match_loop part words None"

definition print_interrupt_context ::
  "('f, 'p) pyrt \<Rightarrow> 'f interrupt_context \<Rightarrow> ('f, 'p) world \<Rightarrow> ('f, 'p) world" where
  "print_interrupt_context rt context w =
     (let w1 = print_end (''Interrupted: '' @ repr_str rt (ctx_type context)) w;
          w2 = (if ctx_type context = ''ASSERT''
                then print_end (''line: '' @ repr_int rt (ctx_id context)) w1
                else if ctx_type context = ''BOOT'' then w1
                else print_end (''id: '' @ repr_int rt (ctx_id context)) w1)
      in case saved_vcap context of
           Some v \<Rightarrow> print (''Vcap_saved = '' @ fmt_f rt 4 v) w2
         | None \<Rightarrow> print [] w2)"

definition print_watchpoint_event ::
  "('f, 'p) pyrt \<Rightarrow> 'f watchpoint_event \<Rightarrow> ('f, 'p) world \<Rightarrow> unit outcome \<times> ('f, 'p) world" where
  "print_watchpoint_event rt event w =
     (case fmt_float rt 4 (wp_vcap event) of
        Returns v \<Rightarrow>
          (Returns (),
           print (''Watchpoint: id: '' @ repr_int rt (wp_id event) @ '' time: '' @
                  fmt_f rt 6 (wp_timestamp event) @ '' s Vcap = '' @ v) w)
      | Raises e \<Rightarrow> (Raises e, w)
      | Blocks \<Rightarrow> (Blocks, w))"

definition init_watchpoint_log :: "sink \<Rightarrow> ('f, 'p) world \<Rightarrow> ('f, 'p) world" where
  "init_watchpoint_log fout w = fwrite fout (''id,timestamp,vcap'' @ [CHR 0x0A]) w"

definition log_watchpoint_event ::
  "('f, 'p) pyrt \<Rightarrow> sink \<Rightarrow> 'f watchpoint_event \<Rightarrow> ('f, 'p) world \<Rightarrow>
     unit outcome \<times> ('f, 'p) world" where
  "log_watchpoint_event rt fout event w =
     (case fmt_float rt 4 (wp_vcap event) of
        Returns v \<Rightarrow>
          (Returns (),
           fwrite fout (fmt_u rt (wp_id event) @ '','' @ fmt_f rt 6 (wp_timestamp event) @
                        '','' @ v @ [CHR 0x0A]) w)
      | Raises e \<Rightarrow> (Raises e, w)
      | Blocks \<Rightarrow> (Blocks, w))"

subsection \<open>Sequencing\<close>

text \<open>Statement after statement: the second runs only when the first returns; a raise
  or a call that never returns ends the block, with the effects made so far.\<close>

definition seq ::
  "'a outcome \<times> 'w \<Rightarrow> ('a \<Rightarrow> 'w \<Rightarrow> 'b outcome \<times> 'w) \<Rightarrow> 'b outcome \<times> 'w" where
  "seq r k =
     (case r of
        (Returns x, w) \<Rightarrow> k x w
      | (Raises e, w) \<Rightarrow> (Raises e, w)
      | (Blocks, w) \<Rightarrow> (Blocks, w))"

text \<open>\<open>try: ... except KeyboardInterrupt: pass\<close>\<close>

definition except_KeyboardInterrupt :: "unit outcome \<times> 'w \<Rightarrow> unit outcome \<times> 'w" where
  "except_KeyboardInterrupt r =
     (case r of
        (Raises e, w) \<Rightarrow> if e = KeyboardInterrupt then (Returns (), w) else (Raises e, w)
      | (Returns x, w) \<Rightarrow> (Returns x, w)
      | (Blocks, w) \<Rightarrow> (Blocks, w))"

definition py_float :: "('f, 'p) pyrt \<Rightarrow> string \<Rightarrow> 'f outcome" where
  "py_float rt s = (case float_of rt s of None \<Rightarrow> Raises ValueError | Some x \<Rightarrow> Returns x)"

definition py_int :: "('f, 'p) pyrt \<Rightarrow> string \<Rightarrow> int outcome" where
  "py_int rt s = (case int_of rt s of None \<Rightarrow> Raises ValueError | Some n \<Rightarrow> Returns n)"

fun pyval_float :: "('f, 'p) pyval \<Rightarrow> 'f option" where
  "pyval_float (PFloat x) = Some x"
| "pyval_float _ = None"

subsection \<open>Commands\<close>

definition do_stream ::
  "('f, 'p) pyrt \<Rightarrow> mon \<Rightarrow> string \<Rightarrow> string \<Rightarrow> string list \<Rightarrow> bool \<Rightarrow> ('f, 'p) world \<Rightarrow>
     unit outcome \<times> ('f, 'p) world" where
  "do_stream rt m out_file duration_sec streams no_parse w =
     seq (if duration_sec = ''-'' then (Returns None, w)
          else seq (py_float rt duration_sec, w) (\<lambda>d w. (Returns (Some d), w)))
       (\<lambda>duration w.
          let streams' = map upper streams in
          seq (if out_file = ''-'' then (Returns (Stdout, True), w)
               else seq (open_w out_file w) (\<lambda>fp w. (Returns (fp, False), w)))
            (\<lambda>(fp, silent) w.
               except_KeyboardInterrupt
                 (seq (mon_call m (Stream streams' duration fp silent no_parse) w)
                    (\<lambda>_ w. (Returns (), w)))))"

definition cmd_stream ::
  "('f, 'p) pyrt \<Rightarrow> mon \<Rightarrow> string \<Rightarrow> string \<Rightarrow> string list \<Rightarrow> ('f, 'p) world \<Rightarrow>
     unit outcome \<times> ('f, 'p) world" where
  "cmd_stream rt m out_file duration_sec streams w =
     do_stream rt m out_file duration_sec streams False w"

definition cmd_streamnp ::
  "('f, 'p) pyrt \<Rightarrow> mon \<Rightarrow> string \<Rightarrow> string \<Rightarrow> string list \<Rightarrow> ('f, 'p) world \<Rightarrow>
     unit outcome \<times> ('f, 'p) world" where
  "cmd_streamnp rt m out_file duration_sec streams w =
     do_stream rt m out_file duration_sec streams True w"

definition cmd_charge ::
  "('f, 'p) pyrt \<Rightarrow> mon \<Rightarrow> string \<Rightarrow> string \<Rightarrow> ('f, 'p) world \<Rightarrow>
     unit outcome \<times> ('f, 'p) world" where
  "cmd_charge rt m target_voltage method w =
     seq (py_float rt target_voltage, w)
       (\<lambda>target_voltage w.
          if method = ''adc'' then
            seq (mon_call m (Charge target_voltage) w)
              (\<lambda>vcap w. seq (fmt_float rt 4 (pyval_float vcap), w)
                 (\<lambda>s w. (Returns (), print (''Vcap = '' @ s) w)))
          else if method = ''cmp'' then
            seq (mon_call m (ChargeCmp target_voltage) w) (\<lambda>_ w. (Returns (), w))
          else (Raises (Exception (''Invalid charger method: '' @ method)), w))"

definition cmd_discharge ::
  "('f, 'p) pyrt \<Rightarrow> mon \<Rightarrow> string \<Rightarrow> string \<Rightarrow> ('f, 'p) world \<Rightarrow>
     unit outcome \<times> ('f, 'p) world" where
  "cmd_discharge rt m target_voltage method w =
     seq (py_float rt target_voltage, w)
       (\<lambda>target_voltage w.
          if method = ''adc'' then
            seq (mon_call m (Discharge target_voltage) w)
              (\<lambda>vcap w. seq (fmt_float rt 4 (pyval_float vcap), w)
                 (\<lambda>s w. (Returns (), print (''Vcap = '' @ s) w)))
          else if method = ''cmp'' then
            seq (mon_call m (DischargeCmp target_voltage) w) (\<lambda>_ w. (Returns (), w))
          else (Raises (Exception (''Invalid charger method: '' @ method)), w))"

definition cmd_int ::
  "('f, 'p) pyrt \<Rightarrow> mon \<Rightarrow> ('f, 'p) world \<Rightarrow> unit outcome \<times> ('f, 'p) world" where
  "cmd_int rt m w =
     except_KeyboardInterrupt
       (seq (mon_call m Interrupt w)
          (\<lambda>saved_vcap w. seq (fmt_float rt 4 (pyval_float saved_vcap), w)
             (\<lambda>s w. (Returns (), (print (''Vcap_saved = '' @ s) w)\<lparr>active_mode := True\<rparr>))))"

text \<open>The breakpoint-type enumeration of the engine's protocol header is not part of
  the console: \<open>cmd_break\<close> takes it as a parameter, a dictionary from names to wire
  values whose keys are iterated in order.\<close>

definition cmd_break ::
  "('f, 'p) pyrt \<Rightarrow> (string \<times> nat) list \<Rightarrow> mon \<Rightarrow> string \<Rightarrow> string \<Rightarrow> string \<Rightarrow>
     string option \<Rightarrow> ('f, 'p) world \<Rightarrow> unit outcome \<times> ('f, 'p) world" where
  "cmd_break rt BREAKPOINT_TYPE m type idx op energy_level w =
     seq (py_int rt idx, w)
       (\<lambda>idx w.
          let enable = startswith ''enable'' op in
          seq (match_keyword (upper type) (map fst BREAKPOINT_TYPE), w)
            (\<lambda>type w.
               seq (case energy_level of
                      None \<Rightarrow> (Returns None, w)
                    | Some s \<Rightarrow> seq (py_float rt s, w) (\<lambda>x w. (Returns (Some x), w)))
                 (\<lambda>energy_level w.
                    seq (mon_call m (ToggleBreakpoint type idx enable energy_level) w)
                      (\<lambda>_ w. (Returns (), w)))))"

definition cmd_watch ::
  "('f, 'p) pyrt \<Rightarrow> mon \<Rightarrow> string \<Rightarrow> string \<Rightarrow> string \<Rightarrow> ('f, 'p) world \<Rightarrow>
     unit outcome \<times> ('f, 'p) world" where
  "cmd_watch rt m idx op vcap_snapshot w =
     seq (py_int rt idx, w)
       (\<lambda>idx w.
          let enable = startswith ''enable'' op;
              vcap_snapshot = startswith ''vcap'' vcap_snapshot
          in seq (mon_call m (ToggleWatchpoint idx enable vcap_snapshot) w)
               (\<lambda>_ w. (Returns (), w)))"

definition cmd_uart :: "mon \<Rightarrow> string \<Rightarrow> ('f, 'p) world \<Rightarrow> unit outcome \<times> ('f, 'p) world" where
  "cmd_uart m op w =
     (let enable = startswith ''enable'' op
      in seq (mon_call m (EnableTargetUart enable) w) (\<lambda>_ w. (Returns (), w)))"

definition cmd_payload :: "mon \<Rightarrow> string \<Rightarrow> ('f, 'p) world \<Rightarrow> unit outcome \<times> ('f, 'p) world" where
  "cmd_payload m op w =
     (let enable = startswith ''enable'' op
      in seq (mon_call m (EnablePeriodicPayload enable) w) (\<lambda>_ w. (Returns (), w)))"

subsection \<open>The wait command\<close>

text \<open>The body of the loop of \<open>cmd_wait\<close> for the value \<open>mon.wait()\<close> returned; the
  result says whether the loop is left (\<open>break\<close>). A value that is none of the four
  event classes fails every \<open>isinstance\<close> test and is dropped. The sinks of the model
  are unbuffered, so \<open>CONSOLE_FILE.flush()\<close> changes nothing.\<close>

definition wait_body ::
  "('f, 'p) pyrt \<Rightarrow> sink option \<Rightarrow> 'f \<Rightarrow> ('f, 'p) pyval \<Rightarrow> ('f, 'p) world \<Rightarrow>
     bool outcome \<times> ('f, 'p) world" where
  "wait_body rt flog start_time event w =
     (case event of
        PEvent (InterruptContext c) \<Rightarrow>
          (Returns True, (print_interrupt_context rt c w)\<lparr>active_mode := True\<rparr>)
      | PEvent (WatchpointEvent e) \<Rightarrow>
          seq (print_watchpoint_event rt e w)
            (\<lambda>_ w. case flog of
                      None \<Rightarrow> (Returns False, w)
                    | Some f \<Rightarrow> seq (log_watchpoint_event rt f e w) (\<lambda>_ w. (Returns False, w)))
      | PEvent (StdIOData timestamp string) \<Rightarrow>
          (let w1 = fwrite (CONSOLE_FILE w) (fmt_f rt 3 (fsub rt timestamp start_time) @ '': '') w;
               w2 = fwrite (CONSOLE_FILE w) string w1
           in if string = [] then (Raises IndexError, w2)
              else if last string \<noteq> CHR 0x0A
                   then (Returns False, fwrite (CONSOLE_FILE w) [CHR 0x0A] w2)
                   else (Returns False, w2))
      | PEvent (EnergyProfile timestamp profile) \<Rightarrow>
          (Returns False,
           print (fmt_f rt 3 (fsub rt timestamp start_time) @ '': '' @ repr_profile rt profile) w)
      | _ \<Rightarrow> (Returns False, w))"

function wait_loop ::
  "('f, 'p) pyrt \<Rightarrow> mon \<Rightarrow> sink option \<Rightarrow> 'f \<Rightarrow> ('f, 'p) world \<Rightarrow>
     unit outcome \<times> ('f, 'p) world" where
  "wait_loop rt m flog start_time w =
     (case mon_call m Wait w of
        (Raises e, w1) \<Rightarrow> (Raises e, w1)
      | (Blocks, w1) \<Rightarrow> (Blocks, w1)
      | (Returns event, w1) \<Rightarrow>
          (case wait_body rt flog start_time event w1 of
             (Raises e, w2) \<Rightarrow> (Raises e, w2)
           | (Blocks, w2) \<Rightarrow> (Blocks, w2)
           | (Returns leave, w2) \<Rightarrow>
               if leave then (Returns (), w2) else wait_loop rt m flog start_time w2))"
  by pat_completeness auto


lemma script_fwrite: "script (fwrite f s w) = script w"
  by (simp add: fwrite_def split: sink.splits)

lemma script_print: "script (print s w) = script w"
  by (simp add: print_def)

lemma script_print_end: "script (print_end s w) = script w"
  by (simp add: print_end_def)

lemma script_print_interrupt_context: "script (print_interrupt_context rt c w) = script w"
  by (simp add: print_interrupt_context_def Let_def script_print script_print_end
      split: option.splits)

lemma script_wait_body: "wait_body rt flog t0 v w = (r, w') \<Longrightarrow> script w' = script w"
  by (auto simp: wait_body_def seq_def print_watchpoint_event_def log_watchpoint_event_def
        fmt_float_def Let_def script_fwrite script_print script_print_interrupt_context
      split: pyval.splits event.splits option.splits if_splits)

lemma script_mon_call:
  "mon_call m c w = (Returns v, w') \<Longrightarrow> length (script w') < length (script w)"
  by (auto simp: mon_call_def Let_def script_fwrite split: mon.splits list.splits option.splits)

termination wait_loop
proof (relation "measure (\<lambda>(rt, m, flog, t0, w). length (script w))", goal_cases)
  case 1
  show ?case by simp
next
  case (2 rt m flog t0 w x1 w1 event r w2 leave)
  then show ?case
    using script_mon_call[of m Wait w event w1] script_wait_body[of rt flog t0 event w1 r w2]
    by simp
qed

definition cmd_wait ::
  "('f, 'p) pyrt \<Rightarrow> mon \<Rightarrow> string option \<Rightarrow> ('f, 'p) world \<Rightarrow>
     unit outcome \<times> ('f, 'p) world" where
  "cmd_wait rt m log_file w =
     seq (case log_file of
            Some p \<Rightarrow> seq (open_w p w) (\<lambda>flog w. (Returns (Some flog), init_watchpoint_log flog w))
          | None \<Rightarrow> (Returns None, w))
       (\<lambda>flog w.
          except_KeyboardInterrupt
            (let start_time = clock w in wait_loop rt m flog start_time w))"

subsection \<open>Further commands\<close>





subsection \<open>Dispatch and the read-eval loop\<close>






datatype got = GotLine bool string | AtEOF | Interrupted | InputFailed exn




subsection \<open>Observations and a runtime to evaluate with\<close>

definition sink_content :: "('f, 'p) world \<Rightarrow> sink \<Rightarrow> string" where
  "sink_content w f = (case f of Stdout \<Rightarrow> stdout w | File p \<Rightarrow> file_content w p)"

text \<open>A reply of the engine that returns a value and writes nothing.\<close>

definition returns :: "('f, 'p) pyval \<Rightarrow> ('f, 'p) reply" where
  "returns v = \<lparr>wrote = [], result = Returns v\<rparr>"

function dec :: "nat \<Rightarrow> string" where
  "dec n = (if n < 10 then [char_of (48 + n)] else dec (n div 10) @ [char_of (48 + n mod 10)])"
  by pat_completeness auto
termination
  by (relation "measure id") auto

definition is_digit :: "char \<Rightarrow> bool" where
  "is_digit c = (let n = (of_char c :: nat) in 48 \<le> n \<and> n \<le> 57)"

fun exn_name :: "exn \<Rightarrow> string" where
  "exn_name KeyboardInterrupt = ''KeyboardInterrupt''"
| "exn_name SystemExit = ''SystemExit''"
| "exn_name TypeError = ''TypeError''"
| "exn_name ValueError = ''ValueError''"
| "exn_name IndexError = ''IndexError''"
| "exn_name KeyError = ''KeyError''"
| "exn_name AttributeError = ''AttributeError''"
| "exn_name IOError = ''IOError''"
| "exn_name EOFError = ''EOFError''"
| "exn_name (Exception s) = ''Exception''"
| "exn_name (EngineError s) = s"

text \<open>A runtime for the concrete evaluations below. A float is carried as its decimal
  text: \<open>float\<close> accepts digits and points, a float directive prints the text as it is,
  and a difference is printed as a difference. Integers are unsigned decimal numerals.\<close>

definition demo_rt :: "(string, string) pyrt" where
  "demo_rt =
     \<lparr>float_of = (\<lambda>s. if s \<noteq> [] \<and> list_all (\<lambda>c. is_digit c \<or> c = CHR ''.'') s
                       then Some s else None),
      int_of = (\<lambda>s. if s \<noteq> [] \<and> list_all is_digit s
                     then Some (int (foldl (\<lambda>n c. 10 * n + (of_char c - 48)) 0 s)) else None),
      fmt_f = (\<lambda>n x. x),
      fmt_u = (\<lambda>n. if n < 0 then ''-'' @ dec (nat (- n)) else dec (nat n)),
      repr_int = (\<lambda>n. if n < 0 then ''-'' @ dec (nat (- n)) else dec (nat n)),
      repr_str = (\<lambda>s. [CHR 0x27] @ s @ [CHR 0x27]),
      repr_profile = (\<lambda>p. p),
      fsub = (\<lambda>a b. a @ ''-'' @ b),
      repr_type = (\<lambda>e. ''<class '' @ exn_name e @ ''>''),
      format_exc = (\<lambda>e. ''Traceback (most recent call last): '' @ exn_name e)\<rparr>"

text \<open>A session with an attached monitor, nothing printed, no file written and no reply
  of the engine scripted.\<close>

definition session0 :: "(string, string) world" where
  "session0 =
     \<lparr>active_mode = False, stdout = [], console_file = None, files = [], unwritable = [],
      clock = ''100.0'', calls = [], script = [], monitor = EDB, stdin = []\<rparr>"

text \<open>Modelled from the spec: the breakpoint-type enumeration of the protocol header,
  which the console reads from the engine's package. The spec names two of its keywords;
  the wire values are placeholders.\<close>

definition demo_BREAKPOINT_TYPE :: "(string \<times> nat) list" where
  "demo_BREAKPOINT_TYPE = [(''CODE'', 0), (''ENERGY_LEVEL'', 1)]"

text \<open>What the wait command is to put out for one event that is not an interrupt context,
  as the claim words it: a watchpoint event is printed and, with a log, logged as a row;
  relayed text goes to the console sink behind its relative timestamp, closed by a
  newline; an energy profile is printed behind its relative timestamp.\<close>

definition event_output ::
  "('f, 'p) pyrt \<Rightarrow> sink option \<Rightarrow> 'f \<Rightarrow> ('f, 'p) event \<Rightarrow> ('f, 'p) world \<Rightarrow> ('f, 'p) world" where
  "event_output rt flog t0 e w =
     (case e of
        InterruptContext c \<Rightarrow> w
      | WatchpointEvent ev \<Rightarrow>
          (case wp_vcap ev of
             None \<Rightarrow> w
           | Some v \<Rightarrow>
               (let w1 = print (''Watchpoint: id: '' @ repr_int rt (wp_id ev) @ '' time: '' @
                                fmt_f rt 6 (wp_timestamp ev) @ '' s Vcap = '' @ fmt_f rt 4 v) w
                in case flog of
                     None \<Rightarrow> w1
                   | Some f \<Rightarrow>
                       fwrite f (fmt_u rt (wp_id ev) @ '','' @ fmt_f rt 6 (wp_timestamp ev) @
                                 '','' @ fmt_f rt 4 v @ [CHR 0x0A]) w1))
      | StdIOData ts s \<Rightarrow>
          fwrite (CONSOLE_FILE w)
            (fmt_f rt 3 (fsub rt ts t0) @ '': '' @ s @
             (if last s = CHR 0x0A then [] else [CHR 0x0A])) w
      | EnergyProfile ts p \<Rightarrow>
          print (fmt_f rt 3 (fsub rt ts t0) @ '': '' @ repr_profile rt p) w)"

fun renderable :: "('f, 'p) event \<Rightarrow> bool" where
  "renderable (InterruptContext c) = False"
| "renderable (WatchpointEvent ev) = (wp_vcap ev \<noteq> None)"
| "renderable (StdIOData ts s) = (s \<noteq> [])"
| "renderable (EnergyProfile ts p) = True"

text \<open>The world in which the loop of the wait command starts (the log file, if one is
  named, created with its header row), and the world after the events of a list have
  been put out in order, with the start of the wait as time zero.\<close>

definition log_opened :: "string option \<Rightarrow> ('f, 'p) world \<Rightarrow> ('f, 'p) world" where
  "log_opened log_file w =
     (case log_file of
        None \<Rightarrow> w
      | Some p \<Rightarrow> init_watchpoint_log (File p) (w\<lparr>files := AList.update p [] (files w)\<rparr>))"

definition after_events ::
  "('f, 'p) pyrt \<Rightarrow> string option \<Rightarrow> ('f, 'p) event list \<Rightarrow> ('f, 'p) world \<Rightarrow> ('f, 'p) world" where
  "after_events rt log_file pre w =
     foldl (\<lambda>v e. event_output rt (map_option File log_file) (clock w) e v)
       (log_opened log_file w) pre"





declare wait_loop.simps [simp del]
declare dec.simps [simp del]

section \<open>Properties\<close>

subsection \<open>Basic facts\<close>

lemma seq_simps:
  "seq (Returns x, w) k = k x w"
  "seq (Raises e, w) k = (Raises e, w)"
  "seq (Blocks, w) k = (Blocks, w)"
  by (simp_all add: seq_def)

lemma mon_call_EDB_Cons:
  "script w = r # rs \<Longrightarrow>
   mon_call EDB c w =
     (result r,
      case call_sink c of
        None \<Rightarrow> w\<lparr>calls := calls w @ [c], script := rs\<rparr>
      | Some fp \<Rightarrow> fwrite fp (wrote r) (w\<lparr>calls := calls w @ [c], script := rs\<rparr>))"
  by (simp add: mon_call_def Let_def)

lemma calls_mon_call_EDB: "calls (snd (mon_call EDB c w)) = calls w @ [c]"
  by (auto simp: mon_call_def Let_def fwrite_def split: list.splits option.splits sink.splits)

lemma fst_mon_call:
  "fst (mon_call m c w) =
     (case m of
        NoMonitor \<Rightarrow> Raises AttributeError
      | EDB \<Rightarrow> (case script w of [] \<Rightarrow> Blocks | r # _ \<Rightarrow> result r))"
  by (simp add: mon_call_def Let_def split: mon.splits list.splits)

lemma calls_seq_unit:
  "calls (snd (seq r (\<lambda>_ w. (Returns (), w)))) = calls (snd r)"
  by (cases r; cases "fst r") (auto simp: seq_def split: outcome.splits)

lemma fst_seq_unit:
  "fst (seq r (\<lambda>_ w. (Returns (), w))) =
     (case fst r of Returns _ \<Rightarrow> Returns () | Raises e \<Rightarrow> Raises e | Blocks \<Rightarrow> Blocks)"
  by (cases r; cases "fst r") (auto simp: seq_def split: outcome.splits)

subsection \<open>Rendering an interrupt context\<close>

text \<open>
  Claim C7. \<open>print_interrupt_context\<close> appends one line to the standard output and
  changes nothing else: the type, then the id as a line number when the type is ASSERT,
  no id when the type is BOOT and the id as an id for every other type, then the saved
  vcap exactly when it is present.
\<close>

theorem print_interrupt_context_output:
  "print_interrupt_context rt c w =
     w\<lparr>stdout := stdout w @ ''Interrupted: '' @ repr_str rt (ctx_type c) @
        (if ctx_type c = ''ASSERT'' then ''line: '' @ repr_int rt (ctx_id c)
         else if ctx_type c = ''BOOT'' then []
         else ''id: '' @ repr_int rt (ctx_id c)) @
        (case saved_vcap c of
           Some v \<Rightarrow> ''Vcap_saved = '' @ fmt_f rt 4 v
         | None \<Rightarrow> []) @ [CHR 0x0A]\<rparr>"
  by (simp add: print_interrupt_context_def print_def print_end_def Let_def split: option.splits)

subsection \<open>Charging and discharging\<close>

text \<open>
  Claim C5. For \<open>charge\<close> and \<open>discharge\<close>: with method adc the engine's ADC operation is
  invoked and the vcap it returns is printed; with method cmp the comparator operation
  is invoked and nothing is printed, whatever it returns; with any other method the
  command raises and the world is unchanged: no engine operation is invoked.
\<close>

theorem charge_discharge_methods:
  "(float_of rt tv = Some v \<and> script w = r # rs \<and> result r = Returns (PFloat x) \<longrightarrow>
      cmd_charge rt EDB tv ''adc'' w =
        (Returns (), w\<lparr>calls := calls w @ [Charge v], script := rs,
                        stdout := stdout w @ ''Vcap = '' @ fmt_f rt 4 x @ [CHR 0x0A]\<rparr>) \<and>
      cmd_discharge rt EDB tv ''adc'' w =
        (Returns (), w\<lparr>calls := calls w @ [Discharge v], script := rs,
                        stdout := stdout w @ ''Vcap = '' @ fmt_f rt 4 x @ [CHR 0x0A]\<rparr>)) \<and>
   (float_of rt tv = Some v \<and> script w = r # rs \<and> result r = Returns y \<longrightarrow>
      cmd_charge rt EDB tv ''cmp'' w =
        (Returns (), w\<lparr>calls := calls w @ [ChargeCmp v], script := rs\<rparr>) \<and>
      cmd_discharge rt EDB tv ''cmp'' w =
        (Returns (), w\<lparr>calls := calls w @ [DischargeCmp v], script := rs\<rparr>)) \<and>
   (method \<noteq> ''adc'' \<and> method \<noteq> ''cmp'' \<longrightarrow>
      (\<exists>e. cmd_charge rt m tv method w = (Raises e, w)) \<and>
      (\<exists>e. cmd_discharge rt m tv method w = (Raises e, w)))"
  by (auto simp: cmd_charge_def cmd_discharge_def py_float_def seq_simps mon_call_EDB_Cons
        fmt_float_def print_def split: option.splits)

theorem charge_discharge_methods_witness:
  "cmd_charge demo_rt EDB ''2.4'' ''adc'' (session0\<lparr>script := [returns (PFloat ''2.3987'')]\<rparr>) =
     (Returns (), session0\<lparr>calls := [Charge ''2.4''], stdout := ''Vcap = 2.3987'' @ [CHR 0x0A]\<rparr>) \<and>
   cmd_discharge demo_rt EDB ''2.4'' ''cmp'' (session0\<lparr>script := [returns (PFloat ''2.3987'')]\<rparr>) =
     (Returns (), session0\<lparr>calls := [DischargeCmp ''2.4'']\<rparr>) \<and>
   cmd_charge demo_rt EDB ''2.4'' ''fast'' session0 =
     (Raises (Exception ''Invalid charger method: fast''), session0)"
  using charge_discharge_methods[of demo_rt "''2.4''" "''2.4''"
      "session0\<lparr>script := [returns (PFloat ''2.3987'')]\<rparr>" "returns (PFloat ''2.3987'')" "[]"
      "''2.3987''" "PFloat ''2.3987''" "''fast''" EDB]
  by (simp add: demo_rt_def session0_def returns_def is_digit_def cmd_charge_def py_float_def
      seq_simps)

subsection \<open>The interrupt command\<close>

text \<open>
  Claim C3. When the engine's \<open>interrupt()\<close> is cancelled (it raises KeyboardInterrupt),
  \<open>cmd_int\<close> returns normally and the world is as before but for the engine's trace and
  script: \<open>active_mode\<close> keeps its value. And whenever \<open>cmd_int\<close> changes \<open>active_mode\<close>,
  the flag is set, the command returned, and \<open>interrupt()\<close> had returned a number.
\<close>

theorem cmd_int_cancelled:
  "(script w = r # rs \<and> result r = Raises KeyboardInterrupt \<longrightarrow>
      cmd_int rt EDB w = (Returns (), w\<lparr>calls := calls w @ [Interrupt], script := rs\<rparr>) \<and>
      active_mode (snd (cmd_int rt EDB w)) = active_mode w) \<and>
   (active_mode (snd (cmd_int rt m w')) \<noteq> active_mode w' \<longrightarrow>
      active_mode (snd (cmd_int rt m w')) \<and> fst (cmd_int rt m w') = Returns () \<and>
      (\<exists>r rs x. m = EDB \<and> script w' = r # rs \<and> result r = Returns (PFloat x)))"
proof (rule conjI)
  show "script w = r # rs \<and> result r = Raises KeyboardInterrupt \<longrightarrow>
      cmd_int rt EDB w = (Returns (), w\<lparr>calls := calls w @ [Interrupt], script := rs\<rparr>) \<and>
      active_mode (snd (cmd_int rt EDB w)) = active_mode w"
    by (simp add: cmd_int_def mon_call_EDB_Cons seq_simps except_KeyboardInterrupt_def)
next
  show "active_mode (snd (cmd_int rt m w')) \<noteq> active_mode w' \<longrightarrow>
      active_mode (snd (cmd_int rt m w')) \<and> fst (cmd_int rt m w') = Returns () \<and>
      (\<exists>r rs x. m = EDB \<and> script w' = r # rs \<and> result r = Returns (PFloat x))"
  proof (cases m)
    case NoMonitor
    then show ?thesis
      by (simp add: cmd_int_def mon_call_def seq_simps except_KeyboardInterrupt_def)
  next
    case EDB
    show ?thesis
    proof (cases "script w'")
      case Nil
      with EDB show ?thesis
        by (simp add: cmd_int_def mon_call_def seq_simps except_KeyboardInterrupt_def)
    next
      case (Cons r rs)
      show ?thesis
      proof (cases "result r")
        case (Returns y)
        with EDB Cons show ?thesis
          by (cases y)
            (simp_all add: cmd_int_def mon_call_EDB_Cons seq_simps except_KeyboardInterrupt_def
              fmt_float_def print_def)
      next
        case (Raises e)
        with EDB Cons show ?thesis
          by (simp add: cmd_int_def mon_call_EDB_Cons seq_simps except_KeyboardInterrupt_def)
      next
        case Blocks
        with EDB Cons show ?thesis
          by (simp add: cmd_int_def mon_call_EDB_Cons seq_simps except_KeyboardInterrupt_def)
      qed
    qed
  qed
qed

theorem cmd_int_cancelled_witness:
  "cmd_int demo_rt EDB (session0\<lparr>script := [\<lparr>wrote = [], result = Raises KeyboardInterrupt\<rparr>]\<rparr>) =
     (Returns (), session0\<lparr>calls := [Interrupt]\<rparr>) \<and>
   \<not> active_mode session0 \<and>
   cmd_int demo_rt EDB (session0\<lparr>script := [returns (PFloat ''2.10'')]\<rparr>) =
     (Returns (), session0\<lparr>calls := [Interrupt], active_mode := True,
                           stdout := ''Vcap_saved = 2.10'' @ [CHR 0x0A]\<rparr>)"
  using cmd_int_cancelled[of "session0\<lparr>script := [\<lparr>wrote = [], result = Raises KeyboardInterrupt\<rparr>]\<rparr>"
      "\<lparr>wrote = [], result = Raises KeyboardInterrupt\<rparr>" "[]" demo_rt EDB
      "session0\<lparr>script := [returns (PFloat ''2.10'')]\<rparr>"]
  by (simp add: demo_rt_def session0_def returns_def cmd_int_def mon_call_EDB_Cons seq_simps
      except_KeyboardInterrupt_def fmt_float_def print_def)

lemma cmd_break_unfold:
  "cmd_break rt BREAKPOINT_TYPE m type idx op level w =
     (case int_of rt idx of
        None \<Rightarrow> (Raises ValueError, w)
      | Some i \<Rightarrow>
          (case match_keyword (upper type) (map fst BREAKPOINT_TYPE) of
             Raises e \<Rightarrow> (Raises e, w)
           | Blocks \<Rightarrow> (Blocks, w)
           | Returns t \<Rightarrow>
               (case level of
                  None \<Rightarrow>
                    seq (mon_call m (ToggleBreakpoint t i (prefix op ''enable'') None) w)
                      (\<lambda>_ w. (Returns (), w))
                | Some s \<Rightarrow>
                    (case float_of rt s of
                       None \<Rightarrow> (Raises ValueError, w)
                     | Some x \<Rightarrow>
                         seq (mon_call m (ToggleBreakpoint t i (prefix op ''enable'') (Some x)) w)
                           (\<lambda>_ w. (Returns (), w))))))"
  by (simp add: cmd_break_def py_int_def py_float_def seq_simps Let_def startswith_def
      split: option.splits outcome.splits)

lemma cmd_watch_unfold:
  "cmd_watch rt m idx op snap w =
     (case int_of rt idx of
        None \<Rightarrow> (Raises ValueError, w)
      | Some i \<Rightarrow>
          seq (mon_call m (ToggleWatchpoint i (prefix op ''enable'') (prefix snap ''vcap'')) w)
            (\<lambda>_ w. (Returns (), w)))"
  by (simp add: cmd_watch_def py_int_def seq_simps Let_def startswith_def split: option.splits)

lemma prefix_enable:
  "prefix op ''enable'' \<longleftrightarrow>
     op \<in> {'''', ''e'', ''en'', ''ena'', ''enab'', ''enabl'', ''enable''}"
proof -
  have "prefix op ''enable'' \<longleftrightarrow> op \<in> set (prefixes ''enable'')"
    by (simp only: in_set_prefixes)
  also have "\<dots> \<longleftrightarrow> op \<in> {'''', ''e'', ''en'', ''ena'', ''enab'', ''enabl'', ''enable''}"
    by auto
  finally show ?thesis .
qed

subsection \<open>The enable argument\<close>

text \<open>
  Claim C8. In \<open>break\<close>, \<open>watch\<close>, \<open>uart\<close> and \<open>payload\<close> the flag handed to the engine is
  true exactly when the op argument is a prefix of the word enable (the empty string
  and the letter e included), and the outcome of the command is the same for every op:
  no op is rejected.
\<close>

theorem op_selects_enable:
  "calls (snd (cmd_uart EDB op w)) = calls w @ [EnableTargetUart (prefix op ''enable'')] \<and>
   calls (snd (cmd_payload EDB op w)) = calls w @ [EnablePeriodicPayload (prefix op ''enable'')] \<and>
   (int_of rt idx = Some i \<longrightarrow>
      calls (snd (cmd_watch rt EDB idx op snap w)) =
        calls w @ [ToggleWatchpoint i (prefix op ''enable'') (prefix snap ''vcap'')]) \<and>
   (int_of rt idx = Some i \<and>
    match_keyword (upper type) (map fst BREAKPOINT_TYPE) = Returns t \<and>
    ((level = None \<and> lvl = None) \<or>
     (\<exists>s x. level = Some s \<and> float_of rt s = Some x \<and> lvl = Some x)) \<longrightarrow>
      calls (snd (cmd_break rt BREAKPOINT_TYPE EDB type idx op level w)) =
        calls w @ [ToggleBreakpoint t i (prefix op ''enable'') lvl]) \<and>
   fst (cmd_uart m op w) = fst (cmd_uart m op' w) \<and>
   fst (cmd_payload m op w) = fst (cmd_payload m op' w) \<and>
   fst (cmd_watch rt m idx op snap w) = fst (cmd_watch rt m idx op' snap w) \<and>
   fst (cmd_break rt BREAKPOINT_TYPE m type idx op level w) =
     fst (cmd_break rt BREAKPOINT_TYPE m type idx op' level w) \<and>
   (prefix op ''enable'' \<longleftrightarrow>
      op \<in> {'''', ''e'', ''en'', ''ena'', ''enab'', ''enabl'', ''enable''})"
proof (intro conjI)
  show "calls (snd (cmd_uart EDB op w)) = calls w @ [EnableTargetUart (prefix op ''enable'')]"
    by (simp add: cmd_uart_def startswith_def calls_seq_unit calls_mon_call_EDB)
  show "calls (snd (cmd_payload EDB op w)) = calls w @ [EnablePeriodicPayload (prefix op ''enable'')]"
    by (simp add: cmd_payload_def startswith_def calls_seq_unit calls_mon_call_EDB)
  show "int_of rt idx = Some i \<longrightarrow>
      calls (snd (cmd_watch rt EDB idx op snap w)) =
        calls w @ [ToggleWatchpoint i (prefix op ''enable'') (prefix snap ''vcap'')]"
    by (simp add: cmd_watch_unfold calls_seq_unit calls_mon_call_EDB)
  show "int_of rt idx = Some i \<and>
    match_keyword (upper type) (map fst BREAKPOINT_TYPE) = Returns t \<and>
    ((level = None \<and> lvl = None) \<or>
     (\<exists>s x. level = Some s \<and> float_of rt s = Some x \<and> lvl = Some x)) \<longrightarrow>
      calls (snd (cmd_break rt BREAKPOINT_TYPE EDB type idx op level w)) =
        calls w @ [ToggleBreakpoint t i (prefix op ''enable'') lvl]"
    by (auto simp: cmd_break_unfold calls_seq_unit calls_mon_call_EDB)
  show "fst (cmd_uart m op w) = fst (cmd_uart m op' w)"
    by (simp add: cmd_uart_def fst_seq_unit fst_mon_call)
  show "fst (cmd_payload m op w) = fst (cmd_payload m op' w)"
    by (simp add: cmd_payload_def fst_seq_unit fst_mon_call)
  show "fst (cmd_watch rt m idx op snap w) = fst (cmd_watch rt m idx op' snap w)"
    by (simp add: cmd_watch_unfold fst_seq_unit fst_mon_call split: option.splits)
  show "fst (cmd_break rt BREAKPOINT_TYPE m type idx op level w) =
     fst (cmd_break rt BREAKPOINT_TYPE m type idx op' level w)"
    by (simp add: cmd_break_unfold fst_seq_unit fst_mon_call split: option.splits outcome.splits)
  show "prefix op ''enable'' \<longleftrightarrow>
      op \<in> {'''', ''e'', ''en'', ''ena'', ''enab'', ''enabl'', ''enable''}"
    by (rule prefix_enable)
qed

theorem op_selects_enable_witness:
  "calls (snd (cmd_watch demo_rt EDB ''2'' ''enabel'' ''novcap'' session0)) =
     [ToggleWatchpoint 2 False False] \<and>
   calls (snd (cmd_break demo_rt demo_BREAKPOINT_TYPE EDB ''code'' ''1'' ''e'' None session0)) =
     [ToggleBreakpoint (Some ''CODE'') 1 True None] \<and>
   calls (snd (cmd_break demo_rt demo_BREAKPOINT_TYPE EDB ''energy'' ''0'' ''off'' (Some ''2.5'')
                 session0)) =
     [ToggleBreakpoint (Some ''ENERGY_LEVEL'') 0 False (Some ''2.5'')] \<and>
   calls (snd (cmd_uart EDB ''disable'' session0)) = [EnableTargetUart False]"
proof -
  have i2: "int_of demo_rt ''2'' = Some 2" and i1: "int_of demo_rt ''1'' = Some 1"
    and i0: "int_of demo_rt ''0'' = Some 0"
    by (simp_all add: demo_rt_def is_digit_def)
  have k: "match_keyword (upper ''code'') (map fst demo_BREAKPOINT_TYPE) = Returns (Some ''CODE'')"
    by code_simp
  have k': "match_keyword (upper ''energy'') (map fst demo_BREAKPOINT_TYPE) =
              Returns (Some ''ENERGY_LEVEL'')"
    by code_simp
  have l: "float_of demo_rt ''2.5'' = Some ''2.5''"
    by (simp add: demo_rt_def is_digit_def)
  have c: "calls session0 = []"
    by (simp add: session0_def)
  have "calls (snd (cmd_watch demo_rt EDB ''2'' ''enabel'' ''novcap'' session0)) =
          calls session0 @ [ToggleWatchpoint 2 (prefix ''enabel'' ''enable'') (prefix ''novcap'' ''vcap'')]"
    by (rule op_selects_enable[where op = "''enabel''" and w = session0 and rt = demo_rt
          and idx = "''2''" and i = 2 and snap = "''novcap''",
          THEN conjunct2, THEN conjunct2, THEN conjunct1, THEN mp])
      (rule i2)
  moreover
  have "calls (snd (cmd_break demo_rt demo_BREAKPOINT_TYPE EDB ''code'' ''1'' ''e'' None session0)) =
          calls session0 @ [ToggleBreakpoint (Some ''CODE'') 1 (prefix ''e'' ''enable'') None]"
    by (rule op_selects_enable[where op = "''e''" and w = session0 and rt = demo_rt
          and idx = "''1''" and i = 1 and type = "''code''"
          and BREAKPOINT_TYPE = demo_BREAKPOINT_TYPE and t = "Some ''CODE''"
          and level = None and lvl = None,
          THEN conjunct2, THEN conjunct2, THEN conjunct2, THEN conjunct1, THEN mp])
      (simp add: i1 k)
  moreover
  have "calls (snd (cmd_break demo_rt demo_BREAKPOINT_TYPE EDB ''energy'' ''0'' ''off''
                      (Some ''2.5'') session0)) =
          calls session0 @
            [ToggleBreakpoint (Some ''ENERGY_LEVEL'') 0 (prefix ''off'' ''enable'') (Some ''2.5'')]"
    by (rule op_selects_enable[where op = "''off''" and w = session0 and rt = demo_rt
          and idx = "''0''" and i = 0 and type = "''energy''"
          and BREAKPOINT_TYPE = demo_BREAKPOINT_TYPE and t = "Some ''ENERGY_LEVEL''"
          and level = "Some ''2.5''" and lvl = "Some ''2.5''",
          THEN conjunct2, THEN conjunct2, THEN conjunct2, THEN conjunct1, THEN mp])
      (simp add: i0 k' l)
  moreover
  have "calls (snd (cmd_uart EDB ''disable'' session0)) =
          calls session0 @ [EnableTargetUart (prefix ''disable'' ''enable'')]"
    by (rule op_selects_enable[where op = "''disable''" and w = session0, THEN conjunct1])
  ultimately show ?thesis
    by (simp add: c)
qed

lemma match_loop_filter:
  "match_loop part words m =
     (case (case m of None \<Rightarrow> [] | Some x \<Rightarrow> [x]) @ filter (prefix part) words of
        [] \<Rightarrow> Returns None
      | [k] \<Rightarrow> Returns (Some k)
      | _ \<Rightarrow> Raises (Exception (''Ambiguous keyword: '' @ part)))"
proof (induction words arbitrary: m)
  case Nil
  then show ?case by (simp split: option.splits)
next
  case (Cons word words)
  show ?case
  proof (cases "prefix part word")
    case True
    then show ?thesis
      by (cases m) (simp_all add: Cons.IH startswith_def split: list.splits)
  next
    case False
    then show ?thesis by (simp add: Cons.IH startswith_def)
  qed
qed

lemma match_keyword_filter:
  "match_keyword part words =
     (case filter (prefix part) words of
        [] \<Rightarrow> Returns None
      | [k] \<Rightarrow> Returns (Some k)
      | _ \<Rightarrow> Raises (Exception (''Ambiguous keyword: '' @ part)))"
  by (simp add: match_keyword_def match_loop_filter)

subsection \<open>Resolving the breakpoint type\<close>

text \<open>
  Claim C6, amended. With an index that parses (and an energy level that parses, when
  one is given), \<open>cmd_break\<close> looks at the keywords of the enumeration that start with the
  upper-cased abbreviation: with exactly one, the engine's \<open>toggle_breakpoint\<close> is called
  with that keyword; with none, it is called with the type \<open>None\<close>; with more than one,
  the command raises and the engine is not called. The enable argument is the boolean
  "op is a prefix of enable".
\<close>

theorem cmd_break_resolves_type:
  assumes "int_of rt idx = Some i"
    and "(level = None \<and> lvl = None) \<or>
         (\<exists>s x. level = Some s \<and> float_of rt s = Some x \<and> lvl = Some x)"
  shows "case filter (prefix (upper type)) (map fst BREAKPOINT_TYPE) of
           [] \<Rightarrow> calls (snd (cmd_break rt BREAKPOINT_TYPE EDB type idx op level w)) =
                   calls w @ [ToggleBreakpoint None i (prefix op ''enable'') lvl]
         | [k] \<Rightarrow> calls (snd (cmd_break rt BREAKPOINT_TYPE EDB type idx op level w)) =
                   calls w @ [ToggleBreakpoint (Some k) i (prefix op ''enable'') lvl]
         | _ \<Rightarrow> cmd_break rt BREAKPOINT_TYPE m type idx op level w =
                   (Raises (Exception (''Ambiguous keyword: '' @ upper type)), w)"
  using assms
  by (auto simp: cmd_break_unfold match_keyword_filter calls_seq_unit calls_mon_call_EDB
      split: list.splits)

theorem cmd_break_resolves_type_witness:
  "calls (snd (cmd_break demo_rt demo_BREAKPOINT_TYPE EDB ''en'' ''3'' ''dis'' (Some ''2.5'') session0)) =
     [ToggleBreakpoint (Some ''ENERGY_LEVEL'') 3 False (Some ''2.5'')] \<and>
   cmd_break demo_rt [(''CODE'', 0), (''CODE_RANGE'', 2)] EDB ''co'' ''3'' ''dis'' None session0 =
     (Raises (Exception ''Ambiguous keyword: CO''), session0)"
proof -
  have i: "int_of demo_rt ''3'' = Some 3"
    by (simp add: demo_rt_def is_digit_def)
  have l: "(Some ''2.5'' = None \<and> Some ''2.5'' = None) \<or>
           (\<exists>s x. Some ''2.5'' = Some s \<and> float_of demo_rt s = Some x \<and> Some ''2.5'' = Some x)"
    by (simp add: demo_rt_def is_digit_def)
  have n: "(None = None \<and> (None :: string option) = None) \<or>
           (\<exists>s x. None = Some s \<and> float_of demo_rt s = Some x \<and> None = Some x)"
    by simp
  have f1: "filter (prefix (upper ''en'')) (map fst demo_BREAKPOINT_TYPE) = [''ENERGY_LEVEL'']"
    by code_simp
  have f2: "filter (prefix (upper ''co'')) (map fst [(''CODE'', 0::nat), (''CODE_RANGE'', 2)]) =
              [''CODE'', ''CODE_RANGE'']"
    by code_simp
  have u: "upper ''co'' = ''CO''"
    by code_simp
  have c: "calls session0 = []"
    by (simp add: session0_def)
  have "calls (snd (cmd_break demo_rt demo_BREAKPOINT_TYPE EDB ''en'' ''3'' ''dis'' (Some ''2.5'') session0)) =
          calls session0 @ [ToggleBreakpoint (Some ''ENERGY_LEVEL'') 3 (prefix ''dis'' ''enable'') (Some ''2.5'')]"
    using cmd_break_resolves_type[OF i l, where type = "''en''"
        and BREAKPOINT_TYPE = demo_BREAKPOINT_TYPE and op = "''dis''" and w = session0]
    unfolding f1 by simp
  moreover
  have "cmd_break demo_rt [(''CODE'', 0), (''CODE_RANGE'', 2)] EDB ''co'' ''3'' ''dis'' None session0 =
          (Raises (Exception (''Ambiguous keyword: '' @ upper ''co'')), session0)"
    using cmd_break_resolves_type[OF i n, where type = "''co''"
        and BREAKPOINT_TYPE = "[(''CODE'', 0), (''CODE_RANGE'', 2)]" and op = "''dis''"
        and w = session0 and m = EDB]
    unfolding f2 by simp
  ultimately show ?thesis
    by (simp add: c u)
qed


text \<open>The claim as it is written fails where the abbreviation is a prefix of no keyword:
  the engine is called with the type \<open>None\<close>.\<close>

theorem cmd_break_type_unresolved:
  "calls (snd (cmd_break demo_rt demo_BREAKPOINT_TYPE EDB ''zzz'' ''0'' ''e'' None session0)) =
     [ToggleBreakpoint None 0 True None]"
  by code_simp

subsection \<open>Sinks\<close>

lemma file_content_update:
  "file_content (w\<lparr>files := AList.update p v (files w)\<rparr>) q =
     (if q = p then v else file_content w q)"
  by (simp add: file_content_def update_conv')

lemma sink_content_fwrite:
  "sink_content (fwrite f s w) g = (if g = f then sink_content w g @ s else sink_content w g)"
  by (cases f; cases g) (auto simp: sink_content_def fwrite_def file_content_def update_conv')

lemma fwrite_fwrite: "fwrite f t (fwrite f s w) = fwrite f (s @ t) w"
  by (cases f) (simp_all add: fwrite_def file_content_update)

lemma CONSOLE_FILE_fwrite: "CONSOLE_FILE (fwrite f s w) = CONSOLE_FILE w"
  by (cases f) (simp_all add: fwrite_def CONSOLE_FILE_def)

lemma wait_body_StdIOData:
  "string \<noteq> [] \<Longrightarrow>
   wait_body rt flog t0 (PEvent (StdIOData ts string)) w =
     (Returns False,
      fwrite (CONSOLE_FILE w)
        (fmt_f rt 3 (fsub rt ts t0) @ '': '' @ string @
         (if last string = CHR 0x0A then [] else [CHR 0x0A])) w)"
  by (simp add: wait_body_def Let_def fwrite_fwrite)

subsection \<open>The watchpoint log\<close>

lemma log_watchpoint_event_absent:
  "wp_vcap event = None \<Longrightarrow> log_watchpoint_event rt fout event w = (Raises TypeError, w)"
  by (simp add: log_watchpoint_event_def fmt_float_def)

text \<open>
  Claim C1, at an event whose vcap is absent: writing its row raises TypeError and
  writes nothing, and \<open>wait\<close> with a log file ends with TypeError at such an event,
  the log holding the header row only.
\<close>

theorem log_absent_vcap_raises:
  "log_watchpoint_event demo_rt (File ''wp.csv'')
     \<lparr>wp_id = 3, wp_timestamp = ''0.005'', wp_vcap = None\<rparr> session0 =
     (Raises TypeError, session0) \<and>
   cmd_wait demo_rt EDB (Some ''wp.csv'')
     (session0\<lparr>script :=
        [returns (PEvent (WatchpointEvent \<lparr>wp_id = 3, wp_timestamp = ''0.005'', wp_vcap = None\<rparr>))]\<rparr>) =
     (Raises TypeError,
      session0\<lparr>calls := [Wait], files := [(''wp.csv'', ''id,timestamp,vcap'' @ [CHR 0x0A])]\<rparr>)"
  by (simp add: log_watchpoint_event_absent cmd_wait_def open_w_def session0_def seq_simps
      init_watchpoint_log_def fwrite_def file_content_def wait_loop.simps mon_call_EDB_Cons
      returns_def wait_body_def print_watchpoint_event_def fmt_float_def
      except_KeyboardInterrupt_def)

subsection \<open>Events in arrival order\<close>

lemma wait_body_renderable:
  assumes "renderable e"
  shows "wait_body rt flog t0 (PEvent e) w = (Returns False, event_output rt flog t0 e w)"
proof (cases e)
  case (InterruptContext c)
  with assms show ?thesis by simp
next
  case (WatchpointEvent ev)
  with assms show ?thesis
    by (auto simp: event_output_def wait_body_def print_watchpoint_event_def
        log_watchpoint_event_def fmt_float_def seq_simps Let_def split: option.splits)
next
  case (StdIOData ts s)
  with assms show ?thesis
    by (simp add: wait_body_StdIOData event_output_def)
next
  case (EnergyProfile ts p)
  then show ?thesis
    by (simp add: event_output_def wait_body_def)
qed

lemma event_output_engine:
  "event_output rt flog t0 e (w\<lparr>calls := cs, script := sc\<rparr>) =
     (event_output rt flog t0 e w)\<lparr>calls := cs, script := sc\<rparr>"
  by (cases e)
    (auto simp: event_output_def print_def fwrite_def file_content_def CONSOLE_FILE_def Let_def
      split: option.splits sink.splits)

lemma foldl_event_output_engine:
  "foldl (\<lambda>w e. event_output rt flog t0 e w) (w\<lparr>calls := cs, script := sc\<rparr>) es =
     (foldl (\<lambda>w e. event_output rt flog t0 e w) w es)\<lparr>calls := cs, script := sc\<rparr>"
  by (induction es arbitrary: w) (simp_all add: event_output_engine)

lemma calls_event_output: "calls (event_output rt flog t0 e w) = calls w"
  by (cases e)
    (auto simp: event_output_def print_def fwrite_def Let_def split: option.splits sink.splits)

lemma script_event_output: "script (event_output rt flog t0 e w) = script w"
  by (cases e)
    (auto simp: event_output_def print_def fwrite_def Let_def split: option.splits sink.splits)

lemma print_interrupt_context_engine:
  "print_interrupt_context rt c (w\<lparr>calls := cs, script := sc\<rparr>) =
     (print_interrupt_context rt c w)\<lparr>calls := cs, script := sc\<rparr>"
  by (simp add: print_interrupt_context_def print_def print_end_def Let_def split: option.splits)

lemma wait_loop_in_order:
  assumes "map result rs0 = map (\<lambda>e. Returns (PEvent e)) pre"
    and "\<forall>e \<in> set pre. renderable e"
    and "result r = Returns (PEvent (InterruptContext c))"
    and "script w = rs0 @ r # rest"
  shows "wait_loop rt EDB flog t0 w =
     (Returns (),
      (print_interrupt_context rt c (foldl (\<lambda>w e. event_output rt flog t0 e w) w pre))
        \<lparr>active_mode := True, calls := calls w @ replicate (Suc (length pre)) Wait,
         script := rest\<rparr>)"
  using assms
proof (induction pre arbitrary: rs0 w)
  case Nil
  then have s: "script w = r # rest" by simp
  show ?case
    by (subst wait_loop.simps)
      (simp add: mon_call_EDB_Cons[OF s] Nil.prems(3) wait_body_def
        print_interrupt_context_engine)
next
  case (Cons e pre)
  from Cons.prems(1) obtain r1 rs1 where rs0: "rs0 = r1 # rs1"
    and r1: "result r1 = Returns (PEvent e)"
    and rs1: "map result rs1 = map (\<lambda>e. Returns (PEvent e)) pre"
    by (cases rs0) auto
  from Cons.prems(4) rs0 have s: "script w = r1 # rs1 @ r # rest" by simp
  from Cons.prems(2) have e: "renderable e" and pre: "\<forall>e \<in> set pre. renderable e" by simp_all
  let ?w1 = "w\<lparr>calls := calls w @ [Wait], script := rs1 @ r # rest\<rparr>"
  let ?w2 = "event_output rt flog t0 e ?w1"
  have s2: "script ?w2 = rs1 @ r # rest"
    by (simp add: script_event_output)
  have step: "wait_loop rt EDB flog t0 w = wait_loop rt EDB flog t0 ?w2"
    by (subst wait_loop.simps) (simp add: mon_call_EDB_Cons[OF s] r1 wait_body_renderable[OF e])
  show ?case
    unfolding step
    by (subst Cons.IH[OF rs1 pre Cons.prems(3) s2])
      (simp add: event_output_engine foldl_event_output_engine print_interrupt_context_engine
        calls_event_output replicate_append_same)
qed


text \<open>Where every event before the interrupt context is one the code handles, the events
  are put out in arrival order and the wait stops at the interrupt context.\<close>

lemma cmd_wait_in_order:
  assumes "map result rs0 = map (\<lambda>e. Returns (PEvent e)) pre"
    and "\<forall>e \<in> set pre. renderable e"
    and "result r = Returns (PEvent (InterruptContext c))"
    and "script w = rs0 @ r # rest"
    and "\<forall>p. log_file = Some p \<longrightarrow> p \<notin> set (unwritable w)"
  shows "cmd_wait rt EDB log_file w =
     (Returns (),
      (print_interrupt_context rt c
         (foldl (\<lambda>v e. event_output rt (map_option File log_file) (clock w) e v)
            (case log_file of
               None \<Rightarrow> w
             | Some p \<Rightarrow> init_watchpoint_log (File p) (w\<lparr>files := AList.update p [] (files w)\<rparr>))
            pre))
        \<lparr>active_mode := True, calls := calls w @ replicate (Suc (length pre)) Wait,
         script := rest\<rparr>)"
proof (cases log_file)
  case None
  then show ?thesis
    by (simp add: cmd_wait_def seq_simps except_KeyboardInterrupt_def
        wait_loop_in_order[OF assms(1-4)])
next
  case (Some p)
  let ?w1 = "init_watchpoint_log (File p) (w\<lparr>files := AList.update p [] (files w)\<rparr>)"
  have s1: "script ?w1 = rs0 @ r # rest"
    by (simp add: init_watchpoint_log_def script_fwrite assms(4))
  have c1: "calls ?w1 = calls w" "clock ?w1 = clock w"
    by (simp_all add: init_watchpoint_log_def fwrite_def)
  from Some assms(5) have ok: "p \<notin> set (unwritable w)"
    by simp
  show ?thesis
    by (simp add: Some cmd_wait_def open_w_def ok seq_simps except_KeyboardInterrupt_def
        wait_loop_in_order[OF assms(1-3) s1] c1)
qed

text \<open>
  Claim C2, at two sequences in which an interrupt context follows an event the code
  does not handle: relayed text that is empty raises IndexError, a watchpoint event
  without vcap raises TypeError. The wait command ends with the error, the interrupt
  context is never taken from the engine, and \<open>active_mode\<close> stays unset.
\<close>

theorem cmd_wait_stops_early:
  "cmd_wait demo_rt EDB None
     (session0\<lparr>script :=
        [returns (PEvent (StdIOData ''100.5'' [])),
         returns (PEvent (InterruptContext \<lparr>ctx_type = ''ASSERT'', ctx_id = 42, saved_vcap = Some ''2.10''\<rparr>))]\<rparr>) =
     (Raises IndexError,
      session0\<lparr>calls := [Wait], stdout := ''100.5-100.0: '',
        script := [returns (PEvent (InterruptContext \<lparr>ctx_type = ''ASSERT'', ctx_id = 42, saved_vcap = Some ''2.10''\<rparr>))]\<rparr>) \<and>
   cmd_wait demo_rt EDB None
     (session0\<lparr>script :=
        [returns (PEvent (WatchpointEvent \<lparr>wp_id = 3, wp_timestamp = ''0.005'', wp_vcap = None\<rparr>)),
         returns (PEvent (InterruptContext \<lparr>ctx_type = ''ASSERT'', ctx_id = 42, saved_vcap = Some ''2.10''\<rparr>))]\<rparr>) =
     (Raises TypeError,
      session0\<lparr>calls := [Wait],
        script := [returns (PEvent (InterruptContext \<lparr>ctx_type = ''ASSERT'', ctx_id = 42, saved_vcap = Some ''2.10''\<rparr>))]\<rparr>) \<and>
   \<not> active_mode session0"
  by (simp add: cmd_wait_def session0_def seq_simps wait_loop.simps mon_call_EDB_Cons
      returns_def wait_body_def print_watchpoint_event_def fmt_float_def
      except_KeyboardInterrupt_def fwrite_def CONSOLE_FILE_def demo_rt_def Let_def)

subsection \<open>Relayed console text\<close>

lemma wait_loop_prefix:
  assumes "map result rs0 = map (\<lambda>e. Returns (PEvent e)) pre"
    and "\<forall>e \<in> set pre. renderable e"
    and "script w = rs0 @ tail"
  shows "wait_loop rt EDB flog t0 w =
     wait_loop rt EDB flog t0
       ((foldl (\<lambda>v e. event_output rt flog t0 e v) w pre)
          \<lparr>calls := calls w @ replicate (length pre) Wait, script := tail\<rparr>)"
  using assms
proof (induction pre arbitrary: rs0 w)
  case Nil
  then have "w\<lparr>calls := calls w, script := tail\<rparr> = w" by simp
  then show ?case by simp
next
  case (Cons e pre)
  from Cons.prems(1) obtain r1 rs1 where rs0: "rs0 = r1 # rs1"
    and r1: "result r1 = Returns (PEvent e)"
    and rs1: "map result rs1 = map (\<lambda>e. Returns (PEvent e)) pre"
    by (cases rs0) auto
  from Cons.prems(3) rs0 have s: "script w = r1 # rs1 @ tail" by simp
  from Cons.prems(2) have e: "renderable e" and pre: "\<forall>e \<in> set pre. renderable e" by simp_all
  let ?w1 = "w\<lparr>calls := calls w @ [Wait], script := rs1 @ tail\<rparr>"
  let ?w2 = "event_output rt flog t0 e ?w1"
  have s2: "script ?w2 = rs1 @ tail"
    by (simp add: script_event_output)
  have step: "wait_loop rt EDB flog t0 w = wait_loop rt EDB flog t0 ?w2"
    by (subst wait_loop.simps) (simp add: mon_call_EDB_Cons[OF s] r1 wait_body_renderable[OF e])
  show ?case
    unfolding step
    by (subst Cons.IH[OF rs1 pre s2])
      (simp add: event_output_engine foldl_event_output_engine calls_event_output
        replicate_append_same)
qed

lemma replicate_Wait2: "replicate n x @ [x, x] = x # x # replicate n x"
  by (induction n) simp_all

lemma fwrite_engine:
  "fwrite f t (v\<lparr>calls := a, script := b\<rparr>) = (fwrite f t v)\<lparr>calls := a, script := b\<rparr>"
  by (cases f) (simp_all add: fwrite_def file_content_def)

lemma CONSOLE_FILE_engine: "CONSOLE_FILE (v\<lparr>calls := a, script := b\<rparr>) = CONSOLE_FILE v"
  by (simp add: CONSOLE_FILE_def)

lemma CONSOLE_FILE_event_output: "CONSOLE_FILE (event_output rt flog t0 e v) = CONSOLE_FILE v"
  by (cases e)
    (auto simp: event_output_def print_def fwrite_def CONSOLE_FILE_def Let_def
      split: option.splits sink.splits)

lemma CONSOLE_FILE_foldl:
  "CONSOLE_FILE (foldl (\<lambda>v e. event_output rt flog t0 e v) w es) = CONSOLE_FILE w"
  by (induction es arbitrary: w) (simp_all add: CONSOLE_FILE_event_output)

lemma log_opened_fields:
  "CONSOLE_FILE (log_opened log_file w) = CONSOLE_FILE w"
  "script (log_opened log_file w) = script w"
  "calls (log_opened log_file w) = calls w"
  "clock (log_opened log_file w) = clock w"
  by (simp_all add: log_opened_def init_watchpoint_log_def fwrite_def CONSOLE_FILE_def
      split: option.splits)

lemma CONSOLE_FILE_after_events: "CONSOLE_FILE (after_events rt log_file pre w) = CONSOLE_FILE w"
  by (simp add: after_events_def CONSOLE_FILE_foldl log_opened_fields)

lemma wait_loop_StdIOData:
  assumes "script v = r1 # r # rest"
    and "result r1 = Returns (PEvent (StdIOData ts s))"
    and "result r = Raises x"
  shows "s = [] \<Longrightarrow>
           wait_loop rt EDB flog t0 v =
             (Raises IndexError,
              (fwrite (CONSOLE_FILE v) (fmt_f rt 3 (fsub rt ts t0) @ '': '') v)
                \<lparr>calls := calls v @ [Wait], script := r # rest\<rparr>)"
    and "s \<noteq> [] \<Longrightarrow>
           wait_loop rt EDB flog t0 v =
             (Raises x,
              (fwrite (CONSOLE_FILE v)
                 (fmt_f rt 3 (fsub rt ts t0) @ '': '' @ s @
                  (if last s = CHR 0x0A then [] else [CHR 0x0A])) v)
                \<lparr>calls := calls v @ [Wait, Wait], script := rest\<rparr>)"
proof -
  let ?v1 = "v\<lparr>calls := calls v @ [Wait], script := r # rest\<rparr>"
  show "wait_loop rt EDB flog t0 v =
             (Raises IndexError,
              (fwrite (CONSOLE_FILE v) (fmt_f rt 3 (fsub rt ts t0) @ '': '') v)
                \<lparr>calls := calls v @ [Wait], script := r # rest\<rparr>)" if "s = []"
    using that
    by (subst wait_loop.simps)
      (simp add: mon_call_EDB_Cons[OF assms(1)] assms(2) wait_body_def Let_def fwrite_fwrite
        fwrite_engine CONSOLE_FILE_engine)
  show "wait_loop rt EDB flog t0 v =
             (Raises x,
              (fwrite (CONSOLE_FILE v)
                 (fmt_f rt 3 (fsub rt ts t0) @ '': '' @ s @
                  (if last s = CHR 0x0A then [] else [CHR 0x0A])) v)
                \<lparr>calls := calls v @ [Wait, Wait], script := rest\<rparr>)" if ne: "s \<noteq> []"
  proof -
    let ?v2 = "fwrite (CONSOLE_FILE ?v1)
                 (fmt_f rt 3 (fsub rt ts t0) @ '': '' @ s @
                  (if last s = CHR 0x0A then [] else [CHR 0x0A])) ?v1"
    have s2: "script ?v2 = r # rest"
      by (simp add: script_fwrite)
    have step: "wait_loop rt EDB flog t0 v = wait_loop rt EDB flog t0 ?v2"
      by (subst wait_loop.simps)
        (simp add: mon_call_EDB_Cons[OF assms(1)] assms(2) wait_body_StdIOData[OF ne])
    show ?thesis
      unfolding step
      by (subst wait_loop.simps)
        (simp add: mon_call_def Let_def script_fwrite assms(3) fwrite_engine CONSOLE_FILE_engine)
  qed
qed

lemma cmd_wait_unfold:
  assumes "\<forall>p. log_file = Some p \<longrightarrow> p \<notin> set (unwritable w)"
  shows "cmd_wait rt EDB log_file w =
     except_KeyboardInterrupt
       (wait_loop rt EDB (map_option File log_file) (clock w) (log_opened log_file w))"
proof (cases log_file)
  case None
  then show ?thesis
    by (simp add: cmd_wait_def seq_simps log_opened_def)
next
  case (Some p)
  with assms have "p \<notin> set (unwritable w)" by simp
  with Some show ?thesis
    by (simp add: cmd_wait_def open_w_def seq_simps log_opened_def init_watchpoint_log_def
        fwrite_def)
qed

text \<open>
  Claim C10. Let a StdIOData event reach the wait command after any events that it
  handles, and let the wait end right behind it (the next \<open>wait()\<close> raises). When the
  string is empty the command raises IndexError, the timestamp already written. When it
  is not, the command ends as the raise says (normally, for a KeyboardInterrupt) and the
  console sink has gained exactly the timestamp relative to the start of the wait, a
  colon and a space, the string, and a newline exactly when the string does not end
  with one: the sink then ends with a newline.
\<close>

theorem stdio_data_ends_with_newline:
  assumes "map result rs0 = map (\<lambda>e. Returns (PEvent e)) pre"
    and "\<forall>e \<in> set pre. renderable e"
    and "script w = rs0 @ r1 # r # rest"
    and "result r1 = Returns (PEvent (StdIOData ts s))"
    and "result r = Raises x"
    and "\<forall>p. log_file = Some p \<longrightarrow> p \<notin> set (unwritable w)"
  shows "(s = [] \<longrightarrow>
            cmd_wait rt EDB log_file w =
              (Raises IndexError,
               (fwrite (CONSOLE_FILE w) (fmt_f rt 3 (fsub rt ts (clock w)) @ '': '')
                  (after_events rt log_file pre w))
                 \<lparr>calls := calls w @ replicate (Suc (length pre)) Wait, script := r # rest\<rparr>)) \<and>
         (s \<noteq> [] \<longrightarrow>
            cmd_wait rt EDB log_file w =
              (if x = KeyboardInterrupt then Returns () else Raises x,
               (fwrite (CONSOLE_FILE w)
                  (fmt_f rt 3 (fsub rt ts (clock w)) @ '': '' @ s @
                   (if last s = CHR 0x0A then [] else [CHR 0x0A]))
                  (after_events rt log_file pre w))
                 \<lparr>calls := calls w @ replicate (Suc (Suc (length pre))) Wait, script := rest\<rparr>) \<and>
            sink_content (snd (cmd_wait rt EDB log_file w)) (CONSOLE_FILE w) =
              sink_content (after_events rt log_file pre w) (CONSOLE_FILE w) @
              fmt_f rt 3 (fsub rt ts (clock w)) @ '': '' @ s @
              (if last s = CHR 0x0A then [] else [CHR 0x0A]) \<and>
            last (sink_content (snd (cmd_wait rt EDB log_file w)) (CONSOLE_FILE w)) = CHR 0x0A)"
proof -
  let ?flog = "map_option File log_file"
  let ?w1 = "log_opened log_file w"
  let ?W = "after_events rt log_file pre w"
  let ?v = "?W\<lparr>calls := calls w @ replicate (length pre) Wait, script := r1 # r # rest\<rparr>"
  have s1: "script ?w1 = rs0 @ r1 # r # rest"
    by (simp add: log_opened_fields assms(3))
  have pre: "wait_loop rt EDB ?flog (clock w) ?w1 = wait_loop rt EDB ?flog (clock w) ?v"
    using wait_loop_prefix[OF assms(1,2) s1, of rt ?flog "clock w"]
    by (simp add: after_events_def log_opened_fields)
  have sv: "script ?v = r1 # r # rest" by simp
  have cf: "CONSOLE_FILE ?v = CONSOLE_FILE w"
    by (simp add: CONSOLE_FILE_engine CONSOLE_FILE_after_events)
  have cv: "calls ?v = calls w @ replicate (length pre) Wait" by simp
  have empty: "cmd_wait rt EDB log_file w =
              (Raises IndexError,
               (fwrite (CONSOLE_FILE w) (fmt_f rt 3 (fsub rt ts (clock w)) @ '': '') ?W)
                 \<lparr>calls := calls w @ replicate (Suc (length pre)) Wait, script := r # rest\<rparr>)"
    if "s = []"
    unfolding cmd_wait_unfold[OF assms(6)] pre
      wait_loop_StdIOData(1)[OF sv assms(4,5) that] cf cv
    by (simp add: except_KeyboardInterrupt_def fwrite_engine replicate_append_same
        replicate_Wait2)
  have full: "cmd_wait rt EDB log_file w =
              (if x = KeyboardInterrupt then Returns () else Raises x,
               (fwrite (CONSOLE_FILE w)
                  (fmt_f rt 3 (fsub rt ts (clock w)) @ '': '' @ s @
                   (if last s = CHR 0x0A then [] else [CHR 0x0A])) ?W)
                 \<lparr>calls := calls w @ replicate (Suc (Suc (length pre))) Wait, script := rest\<rparr>)"
    if "s \<noteq> []"
    unfolding cmd_wait_unfold[OF assms(6)] pre
      wait_loop_StdIOData(2)[OF sv assms(4,5) that] cf cv
    by (simp add: except_KeyboardInterrupt_def fwrite_engine replicate_append_same
        replicate_Wait2)
  have sc: "sink_content (u\<lparr>calls := a, script := b\<rparr>) f = sink_content u f" for u :: "('f, 'p) world" and a b f
    by (simp add: sink_content_def file_content_def split: sink.splits)
  show ?thesis
  proof (intro conjI impI)
    assume "s = []"
    then show "cmd_wait rt EDB log_file w =
              (Raises IndexError,
               (fwrite (CONSOLE_FILE w) (fmt_f rt 3 (fsub rt ts (clock w)) @ '': '') ?W)
                 \<lparr>calls := calls w @ replicate (Suc (length pre)) Wait, script := r # rest\<rparr>)"
      by (rule empty)
  next
    assume ne: "s \<noteq> []"
    show "cmd_wait rt EDB log_file w =
              (if x = KeyboardInterrupt then Returns () else Raises x,
               (fwrite (CONSOLE_FILE w)
                  (fmt_f rt 3 (fsub rt ts (clock w)) @ '': '' @ s @
                   (if last s = CHR 0x0A then [] else [CHR 0x0A])) ?W)
                 \<lparr>calls := calls w @ replicate (Suc (Suc (length pre))) Wait, script := rest\<rparr>)"
      by (rule full[OF ne])
    show "sink_content (snd (cmd_wait rt EDB log_file w)) (CONSOLE_FILE w) =
              sink_content ?W (CONSOLE_FILE w) @
              fmt_f rt 3 (fsub rt ts (clock w)) @ '': '' @ s @
              (if last s = CHR 0x0A then [] else [CHR 0x0A])"
      by (simp add: full[OF ne] sc sink_content_fwrite)
    show "last (sink_content (snd (cmd_wait rt EDB log_file w)) (CONSOLE_FILE w)) = CHR 0x0A"
      using ne by (simp add: full[OF ne] sc sink_content_fwrite)
  qed
qed


theorem stdio_data_ends_with_newline_witness:
  "cmd_wait demo_rt EDB None
     (session0\<lparr>script :=
        [returns (PEvent (WatchpointEvent \<lparr>wp_id = 3, wp_timestamp = ''0.005'', wp_vcap = Some ''1.98''\<rparr>)),
         returns (PEvent (StdIOData ''100.25'' ''boot'')),
         \<lparr>wrote = [], result = Raises KeyboardInterrupt\<rparr>]\<rparr>) =
     (Returns (),
      session0\<lparr>calls := [Wait, Wait, Wait],
        stdout := ''Watchpoint: id: 3 time: 0.005 s Vcap = 1.98'' @ [CHR 0x0A] @
                  ''100.25-100.0: boot'' @ [CHR 0x0A]\<rparr>) \<and>
   cmd_wait demo_rt EDB None
     (session0\<lparr>script :=
        [returns (PEvent (StdIOData ''100.25'' [])),
         \<lparr>wrote = [], result = Raises KeyboardInterrupt\<rparr>]\<rparr>) =
     (Raises IndexError,
      session0\<lparr>calls := [Wait], stdout := ''100.25-100.0: '',
        script := [\<lparr>wrote = [], result = Raises KeyboardInterrupt\<rparr>]\<rparr>)"
proof -
  let ?wp = "WatchpointEvent \<lparr>wp_id = 3, wp_timestamp = ''0.005'', wp_vcap = Some ''1.98''\<rparr>
               :: (string, string) event"
  let ?k = "\<lparr>wrote = [], result = Raises KeyboardInterrupt\<rparr> :: (string, string) reply"
  let ?w = "session0\<lparr>script := [returns (PEvent ?wp), returns (PEvent (StdIOData ''100.25'' ''boot'')), ?k]\<rparr>"
  let ?w' = "session0\<lparr>script := [returns (PEvent (StdIOData ''100.25'' [])), ?k]\<rparr>"
  have a1: "map result [returns (PEvent ?wp)] = map (\<lambda>e. Returns (PEvent e)) [?wp]"
    by (simp add: returns_def)
  have a2: "\<forall>e \<in> set [?wp]. renderable e"
    by simp
  have a3: "script ?w = [returns (PEvent ?wp)] @ returns (PEvent (StdIOData ''100.25'' ''boot'')) # ?k # []"
    by simp
  have a4: "result (returns (PEvent (StdIOData ''100.25'' ''boot''))) =
              Returns (PEvent (StdIOData ''100.25'' ''boot'') :: (string, string) pyval)"
    by (simp add: returns_def)
  have a5: "result ?k = Raises KeyboardInterrupt"
    by simp
  have a6: "\<forall>p. (None :: string option) = Some p \<longrightarrow> p \<notin> set (unwritable ?w)"
    by simp
  have b1: "map result [] = map (\<lambda>e. Returns (PEvent e)) ([] :: (string, string) event list)"
    by simp
  have b2: "\<forall>e \<in> set ([] :: (string, string) event list). renderable e"
    by simp
  have b3: "script ?w' = [] @ returns (PEvent (StdIOData ''100.25'' [])) # ?k # []"
    by simp
  have b4: "result (returns (PEvent (StdIOData ''100.25'' []))) =
              Returns (PEvent (StdIOData ''100.25'' []) :: (string, string) pyval)"
    by (simp add: returns_def)
  have b6: "\<forall>p. (None :: string option) = Some p \<longrightarrow> p \<notin> set (unwritable ?w')"
    by simp
  have d: "dec 3 = ''3''"
    by code_simp
  have "cmd_wait demo_rt EDB None ?w =
     (Returns (),
      session0\<lparr>calls := [Wait, Wait, Wait],
        stdout := ''Watchpoint: id: 3 time: 0.005 s Vcap = 1.98'' @ [CHR 0x0A] @
                  ''100.25-100.0: boot'' @ [CHR 0x0A]\<rparr>)"
    using stdio_data_ends_with_newline[OF a1 a2 a3 a4 a5 a6, of demo_rt]
    by (simp add: after_events_def log_opened_def event_output_def session0_def demo_rt_def
        fwrite_def print_def CONSOLE_FILE_def d)
  moreover
  have "cmd_wait demo_rt EDB None ?w' =
     (Raises IndexError,
      session0\<lparr>calls := [Wait], stdout := ''100.25-100.0: '', script := [?k]\<rparr>)"
    using stdio_data_ends_with_newline[OF b1 b2 b3 b4 a5 b6, of demo_rt]
    by (simp add: after_events_def log_opened_def session0_def demo_rt_def
        fwrite_def CONSOLE_FILE_def)
  ultimately show ?thesis
    by simp
qed

subsection \<open>Cancelling a stream\<close>

lemma do_stream_cancelled:
  assumes "script w = r # rs"
    and "result r = Raises KeyboardInterrupt"
    and "duration_sec = ''-'' \<or> float_of rt duration_sec \<noteq> None"
    and "out_file \<notin> set (unwritable w)"
  shows "fst (do_stream rt EDB out_file duration_sec streams no_parse w) = Returns () \<and>
         sink_content (snd (do_stream rt EDB out_file duration_sec streams no_parse w))
           (if out_file = ''-'' then Stdout else File out_file) =
           (if out_file = ''-'' then stdout w else []) @ wrote r"
proof -
  have "\<exists>d. (if duration_sec = ''-'' then (Returns None, w)
          else seq (py_float rt duration_sec, w) (\<lambda>d w. (Returns (Some d), w))) = (Returns d, w)"
    using assms(3) by (auto simp: py_float_def seq_simps)
  then obtain d where d: "(if duration_sec = ''-'' then (Returns None, w)
          else seq (py_float rt duration_sec, w) (\<lambda>d w. (Returns (Some d), w))) = (Returns d, w)"
    by blast
  show ?thesis
  proof (cases "out_file = ''-''")
    case True
    then show ?thesis
      unfolding do_stream_def d
      by (simp add: seq_simps Let_def mon_call_EDB_Cons[OF assms(1)] assms(2)
          except_KeyboardInterrupt_def sink_content_fwrite, simp add: sink_content_def)
  next
    case False
    let ?w1 = "w\<lparr>files := AList.update out_file [] (files w)\<rparr>"
    have s1: "script ?w1 = r # rs" by (simp add: assms(1))
    from False show ?thesis
      unfolding do_stream_def d
      by (simp add: seq_simps Let_def open_w_def assms(4) mon_call_EDB_Cons[OF s1] assms(2)
          except_KeyboardInterrupt_def sink_content_fwrite,
          simp add: sink_content_def file_content_def update_conv')
  qed
qed

text \<open>
  Claim C4. When the engine's \<open>stream()\<close> is cancelled (it raises KeyboardInterrupt),
  \<open>cmd_stream\<close> and \<open>cmd_streamnp\<close> return normally, and the destination holds what it
  held when the capture began (nothing, for a file) followed by exactly what the engine
  had written: the console neither truncates the destination nor adds to it.
\<close>

theorem stream_cancel_is_clean:
  assumes "script w = r # rs"
    and "result r = Raises KeyboardInterrupt"
    and "duration_sec = ''-'' \<or> float_of rt duration_sec \<noteq> None"
    and "out_file \<notin> set (unwritable w)"
  shows "fst (cmd_stream rt EDB out_file duration_sec streams w) = Returns () \<and>
         sink_content (snd (cmd_stream rt EDB out_file duration_sec streams w))
           (if out_file = ''-'' then Stdout else File out_file) =
           (if out_file = ''-'' then stdout w else []) @ wrote r \<and>
         fst (cmd_streamnp rt EDB out_file duration_sec streams w) = Returns () \<and>
         sink_content (snd (cmd_streamnp rt EDB out_file duration_sec streams w))
           (if out_file = ''-'' then Stdout else File out_file) =
           (if out_file = ''-'' then stdout w else []) @ wrote r"
  using do_stream_cancelled[OF assms, of streams False] do_stream_cancelled[OF assms, of streams True]
  by (simp add: cmd_stream_def cmd_streamnp_def)

theorem stream_cancel_is_clean_witness:
  "fst (cmd_stream demo_rt EDB ''cap.csv'' ''-'' [''vcap'']
          (session0\<lparr>script := [\<lparr>wrote = ''0.1,2.40'' @ [CHR 0x0A], result = Raises KeyboardInterrupt\<rparr>]\<rparr>)) =
     Returns () \<and>
   sink_content
     (snd (cmd_stream demo_rt EDB ''cap.csv'' ''-'' [''vcap'']
          (session0\<lparr>script := [\<lparr>wrote = ''0.1,2.40'' @ [CHR 0x0A], result = Raises KeyboardInterrupt\<rparr>]\<rparr>)))
     (File ''cap.csv'') = ''0.1,2.40'' @ [CHR 0x0A]"
proof -
  let ?r = "\<lparr>wrote = ''0.1,2.40'' @ [CHR 0x0A], result = Raises KeyboardInterrupt\<rparr> :: (string, string) reply"
  let ?w = "session0\<lparr>script := [?r]\<rparr>"
  have a1: "script ?w = ?r # []" by simp
  have a2: "result ?r = Raises KeyboardInterrupt" by simp
  have a3: "''-'' = ''-'' \<or> float_of demo_rt ''-'' \<noteq> None" by simp
  have a4: "''cap.csv'' \<notin> set (unwritable ?w)" by (simp add: session0_def)
  show ?thesis
    using stream_cancel_is_clean[OF a1 a2 a3 a4, of "[''vcap'']"]
    by simp
qed

subsection \<open>The read-eval loop\<close>















end
